theory Spec2Isabelle
  imports Complex_Main
begin

section \<open>Data model (models.py)\<close>

text \<open>
  \<^verbatim>\<open>class PaymentStatus(str, PyEnum)\<close> with its four members.
\<close>

datatype PaymentStatus = PENDING | CONFIRMED | FAILED | REFUNDED

text \<open>
  Python floats. The request's \<^verbatim>\<open>amount: float\<close> may be any binary64 value, the
  infinities and NaN included. Only \<^verbatim>\<open>int(amount * 100)\<close> computes with it: the product
  overflows to an infinity from \<open>2^1024 - 2^970\<close> on (round to nearest, ties to even),
  and \<^verbatim>\<open>int\<close> raises on an infinity or a NaN and truncates toward zero otherwise.
  The rounding of a finite product to binary64 is not modelled: it changes the number
  handed to the processor, never the branch taken.
\<close>

datatype pyfloat = Finite real | PosInf | NegInf | NaN

datatype exn =
    StripeError string
  | SignatureVerificationError string
  | ValueError string
  | OverflowError string
  | IntegrityError string

fun str :: "exn \<Rightarrow> string" where
  "str (StripeError m) = m"
| "str (SignatureVerificationError m) = m"
| "str (ValueError m) = m"
| "str (OverflowError m) = m"
| "str (IntegrityError m) = m"

text \<open>
  \<^verbatim>\<open>stripe.error.SignatureVerificationError\<close> is a subclass of
  \<^verbatim>\<open>stripe.error.StripeError\<close>, so \<^verbatim>\<open>except stripe.error.StripeError\<close> catches both.
\<close>

fun is_StripeError :: "exn \<Rightarrow> bool" where
  "is_StripeError (StripeError m) = True"
| "is_StripeError (SignatureVerificationError m) = True"
| "is_StripeError e = False"

definition float_overflow :: real where
  "float_overflow = 2 ^ 1024 - 2 ^ 970"

fun times100 :: "pyfloat \<Rightarrow> pyfloat" where
  "times100 (Finite r) =
     (if float_overflow \<le> r * 100 then PosInf
      else if r * 100 \<le> - float_overflow then NegInf
      else Finite (r * 100))"
| "times100 PosInf = PosInf"
| "times100 NegInf = NegInf"
| "times100 NaN = NaN"

fun py_int :: "pyfloat \<Rightarrow> exn + int" where
  "py_int (Finite r) = Inr (if 0 \<le> r then \<lfloor>r\<rfloor> else \<lceil>r\<rceil>)"
| "py_int PosInf = Inl (OverflowError ''cannot convert float infinity to integer'')"
| "py_int NegInf = Inl (OverflowError ''cannot convert float infinity to integer'')"
| "py_int NaN = Inl (ValueError ''cannot convert float NaN to integer'')"

type_synonym json_dict = "(string \<times> string) list"

text \<open>A point in time, as \<^verbatim>\<open>datetime.utcnow\<close> reads it; its ISO rendering is not modelled.\<close>

type_synonym datetime = nat

record PaymentModel =
  payment_id :: string
  status :: PaymentStatus
  amount :: pyfloat
  currency :: string
  order_id :: string
  customer_id :: "string option"
  payment_method :: string
  created_at :: datetime
  metadata :: "json_dict option"
  stripe_payment_intent_id :: "string option"
  stripe_session_id :: "string option"

text \<open>
  The table \<^verbatim>\<open>payments\<close>, keyed by its primary key \<^verbatim>\<open>payment_id\<close>. A handler's
  \<^verbatim>\<open>db.commit()\<close> is the point where the returned store differs from the given one; a
  request that raises before its commit returns the store it was given (the session is
  closed by \<^verbatim>\<open>get_db\<close> without a commit).
\<close>

type_synonym db = "string \<rightharpoonup> PaymentModel"

section \<open>Request and response shapes (main.py)\<close>

record PaymentRequest =
  amount_req :: pyfloat
  currency_req :: string
  order_id_req :: string
  payment_method_req :: string
  customer_id_req :: "string option"
  metadata_req :: "json_dict option"
  return_url :: string
  cancel_url :: string

record PaymentResponse =
  payment_id_resp :: string
  status_resp :: PaymentStatus
  amount_resp :: pyfloat
  currency_resp :: string
  created_at_resp :: datetime
  order_id_resp :: string
  checkout_url :: "string option"

section \<open>The processor client (the \<^verbatim>\<open>stripe\<close> package)\<close>

text \<open>
  The objects the handlers read from the processor: a checkout session (\<^verbatim>\<open>id\<close>,
  \<^verbatim>\<open>url\<close>, \<^verbatim>\<open>payment_status\<close>, \<^verbatim>\<open>status\<close>, \<^verbatim>\<open>payment_intent\<close>, \<^verbatim>\<open>metadata\<close>), a
  refund (\<^verbatim>\<open>status\<close>) and a webhook event (\<^verbatim>\<open>type\<close>, \<^verbatim>\<open>data.object\<close>).
\<close>

record checkout_session =
  session_id :: string
  url :: "string option"
  payment_status :: string
  session_status :: string
  payment_intent :: "string option"
  session_metadata :: "string \<rightharpoonup> string"

record refund =
  refund_status :: string

record event =
  event_type :: string
  data_object :: checkout_session

text \<open>The keyword arguments of \<^verbatim>\<open>stripe.checkout.Session.create\<close> that vary with the request.\<close>

record create_params =
  currency_arg :: string
  unit_amount :: int
  product_name :: string
  success_url :: string
  cancel_url_arg :: string
  metadata_payment_id :: string
  metadata_order_id :: string

text \<open>
  The processor is outside the repository: its four entry points are parameters, each
  returning either the exception it raises or its result.
\<close>

record stripe_api =
  Session_create :: "create_params \<Rightarrow> exn + checkout_session"
  Session_retrieve :: "string option \<Rightarrow> exn + checkout_session"
  Refund_create :: "string option \<Rightarrow> exn + refund"
  Webhook_construct_event :: "string \<Rightarrow> string option \<Rightarrow> string option \<Rightarrow> exn + event"

text \<open>\<^verbatim>\<open>str.lower\<close> on the ASCII letters (the currency code is an ASCII code).\<close>

definition lower_char :: "char \<Rightarrow> char" where
  "lower_char c =
     (if 65 \<le> (of_char c :: nat) \<and> (of_char c :: nat) \<le> 90
      then char_of ((of_char c :: nat) + 32) else c)"

definition lower :: "string \<Rightarrow> string" where
  "lower s = map lower_char s"

section \<open>The handlers (main.py)\<close>

text \<open>
  The framework resolves \<^verbatim>\<open>get_db\<close> and \<^verbatim>\<open>verify_api_key\<close> before a handler's body runs;
  the definitions below are the bodies, entered by a caller whose key was accepted.

  A request ends with a value or with a failure: an \<^verbatim>\<open>HTTPException\<close> raised by the
  handler (status code and detail), or an exception no handler catches.
\<close>

datatype failure = HTTPException nat string | Uncaught exn

text \<open>\<^verbatim>\<open>except stripe.error.StripeError as e: raise HTTPException(status_code=400, detail=str(e))\<close>\<close>

definition except_StripeError :: "exn \<Rightarrow> failure" where
  "except_StripeError e = (if is_StripeError e then HTTPException 400 (str e) else Uncaught e)"

text \<open>Python's truth value of an optional string: \<^verbatim>\<open>None\<close> and \<^verbatim>\<open>""\<close> are false.\<close>

fun truthy :: "string option \<Rightarrow> bool" where
  "truthy None = False"
| "truthy (Some s) = (s \<noteq> [])"

text \<open>
  \<^verbatim>\<open>create_payment\<close>. The fresh \<^verbatim>\<open>str(uuid.uuid4())\<close> and the clock are inputs. The
  conversion of the amount precedes the \<^verbatim>\<open>try\<close>; a primary key already present makes
  \<^verbatim>\<open>db.commit()\<close> raise an integrity error, which the \<^verbatim>\<open>except\<close> clause does not catch.
  \<open>checkout_params\<close> is the argument list of \<^verbatim>\<open>Session.create\<close> and \<open>new_payment\<close> the
  \<^verbatim>\<open>PaymentModel(...)\<close> row, both written inline in the source.
\<close>

definition checkout_params :: "PaymentRequest \<Rightarrow> string \<Rightarrow> int \<Rightarrow> create_params" where
  "checkout_params payment_request new_id stripe_amount =
     \<lparr>currency_arg = lower (currency_req payment_request),
      unit_amount = stripe_amount,
      product_name = ''Order '' @ order_id_req payment_request,
      success_url = return_url payment_request,
      cancel_url_arg = cancel_url payment_request,
      metadata_payment_id = new_id,
      metadata_order_id = order_id_req payment_request\<rparr>"

definition new_payment :: "PaymentRequest \<Rightarrow> string \<Rightarrow> datetime \<Rightarrow> checkout_session \<Rightarrow> PaymentModel" where
  "new_payment payment_request new_id now checkout_session =
     \<lparr>payment_id = new_id,
      status = PENDING,
      amount = amount_req payment_request,
      currency = currency_req payment_request,
      order_id = order_id_req payment_request,
      customer_id = customer_id_req payment_request,
      payment_method = payment_method_req payment_request,
      created_at = now,
      metadata = metadata_req payment_request,
      stripe_payment_intent_id = None,
      stripe_session_id = Some (session_id checkout_session)\<rparr>"

definition create_payment ::
  "stripe_api \<Rightarrow> string \<Rightarrow> datetime \<Rightarrow> db \<Rightarrow> PaymentRequest \<Rightarrow> (failure + PaymentResponse) \<times> db" where
  "create_payment stripe new_id now db payment_request =
     (case py_int (times100 (amount_req payment_request)) of
        Inl e \<Rightarrow> (Inl (Uncaught e), db)
      | Inr stripe_amount \<Rightarrow>
          (case Session_create stripe (checkout_params payment_request new_id stripe_amount) of
             Inl e \<Rightarrow> (Inl (except_StripeError e), db)
           | Inr checkout_session \<Rightarrow>
               (let db_payment = new_payment payment_request new_id now checkout_session
                in (case db new_id of
                      Some other \<Rightarrow>
                        (Inl (Uncaught (IntegrityError ''duplicate key value violates unique constraint'')), db)
                    | None \<Rightarrow>
                        (Inr \<lparr>payment_id_resp = payment_id db_payment,
                              status_resp = status db_payment,
                              amount_resp = amount db_payment,
                              currency_resp = currency db_payment,
                              created_at_resp = created_at db_payment,
                              order_id_resp = order_id db_payment,
                              checkout_url = url checkout_session\<rparr>,
                         db(new_id \<mapsto> db_payment))))))"

text \<open>
  \<^verbatim>\<open>get_payment\<close>. The row found by the query is the one whose key is \<^verbatim>\<open>payment_id\<close>;
  an exception of \<^verbatim>\<open>Session.retrieve\<close> is caught nowhere.
\<close>

definition get_payment :: "stripe_api \<Rightarrow> db \<Rightarrow> string \<Rightarrow> (failure + PaymentModel) \<times> db" where
  "get_payment stripe db pid =
     (case db pid of
        None \<Rightarrow> (Inl (HTTPException 404 ''Payment not found''), db)
      | Some payment \<Rightarrow>
          if truthy (stripe_session_id payment) then
            (case Session_retrieve stripe (stripe_session_id payment) of
               Inl e \<Rightarrow> (Inl (Uncaught e), db)
             | Inr session \<Rightarrow>
                 if payment_status session = ''paid'' \<and> status payment \<noteq> CONFIRMED then
                   (Inr (payment\<lparr>status := CONFIRMED\<rparr>), db(pid \<mapsto> payment\<lparr>status := CONFIRMED\<rparr>))
                 else if session_status session = ''expired'' \<and> status payment = PENDING then
                   (Inr (payment\<lparr>status := FAILED\<rparr>), db(pid \<mapsto> payment\<lparr>status := FAILED\<rparr>))
                 else (Inr payment, db))
          else (Inr payment, db))"

text \<open>\<^verbatim>\<open>refund_payment\<close>. The \<^verbatim>\<open>HTTPException\<close> of the \<^verbatim>\<open>else\<close> branch passes the \<^verbatim>\<open>except\<close> clause.\<close>

definition refund_payment :: "stripe_api \<Rightarrow> db \<Rightarrow> string \<Rightarrow> (failure + json_dict) \<times> db" where
  "refund_payment stripe db pid =
     (case db pid of
        None \<Rightarrow> (Inl (HTTPException 404 ''Payment not found''), db)
      | Some payment \<Rightarrow>
          if status payment \<noteq> CONFIRMED then
            (Inl (HTTPException 400 ''Payment cannot be refunded''), db)
          else
            (case Session_retrieve stripe (stripe_session_id payment) of
               Inl e \<Rightarrow> (Inl (except_StripeError e), db)
             | Inr session \<Rightarrow>
                 (case Refund_create stripe (payment_intent session) of
                    Inl e \<Rightarrow> (Inl (except_StripeError e), db)
                  | Inr refund \<Rightarrow>
                      if refund_status refund = ''succeeded'' then
                        (Inr [(''message'', ''Payment refunded successfully'')],
                         db(pid \<mapsto> payment\<lparr>status := REFUNDED\<rparr>))
                      else (Inl (HTTPException 400 ''Refund failed''), db))))"

text \<open>
  \<^verbatim>\<open>stripe_webhook\<close>, given the raw body, the \<^verbatim>\<open>stripe-signature\<close> header (absent:
  \<^verbatim>\<open>None\<close>) and the configured \<^verbatim>\<open>WEBHOOK_SECRET\<close>.
\<close>

fun except_webhook :: "exn \<Rightarrow> failure" where
  "except_webhook (ValueError m) = HTTPException 400 m"
| "except_webhook (SignatureVerificationError m) = HTTPException 400 m"
| "except_webhook e = Uncaught e"

definition stripe_webhook ::
  "stripe_api \<Rightarrow> string option \<Rightarrow> db \<Rightarrow> string \<Rightarrow> string option \<Rightarrow> (failure + json_dict) \<times> db" where
  "stripe_webhook stripe WEBHOOK_SECRET db payload sig_header =
     (case Webhook_construct_event stripe payload sig_header WEBHOOK_SECRET of
        Inl e \<Rightarrow> (Inl (except_webhook e), db)
      | Inr event \<Rightarrow>
          if event_type event = ''checkout.session.completed'' then
            (let session = data_object event
             in case session_metadata session ''payment_id'' of
                  None \<Rightarrow> (Inr [(''status'', ''success'')], db)
                | Some pid \<Rightarrow>
                    if truthy (Some pid) then
                      (case db pid of
                         None \<Rightarrow> (Inr [(''status'', ''success'')], db)
                       | Some payment \<Rightarrow>
                           (Inr [(''status'', ''success'')],
                            db(pid \<mapsto> payment\<lparr>status := CONFIRMED,
                                               stripe_payment_intent_id := payment_intent session\<rparr>)))
                    else (Inr [(''status'', ''success'')], db))
          else (Inr [(''status'', ''success'')], db))"

section \<open>Requests in sequence\<close>

text \<open>
  The four endpoints as one request type. Each request meets the processor as it is at
  that moment, so a run pairs every request with the processor's answers then.
\<close>

datatype request =
    CreateReq PaymentRequest string datetime
  | GetReq string
  | RefundReq string
  | WebhookReq string "string option"

fun outcome :: "(failure + 'a) \<times> db \<Rightarrow> failure option \<times> db" where
  "outcome (Inl f, db) = (Some f, db)"
| "outcome (Inr v, db) = (None, db)"

fun serve :: "stripe_api \<Rightarrow> string option \<Rightarrow> db \<Rightarrow> request \<Rightarrow> failure option \<times> db" where
  "serve stripe secret db (CreateReq payment_request new_id now) =
     outcome (create_payment stripe new_id now db payment_request)"
| "serve stripe secret db (GetReq pid) = outcome (get_payment stripe db pid)"
| "serve stripe secret db (RefundReq pid) = outcome (refund_payment stripe db pid)"
| "serve stripe secret db (WebhookReq payload sig_header) =
     outcome (stripe_webhook stripe secret db payload sig_header)"

fun run :: "string option \<Rightarrow> db \<Rightarrow> (stripe_api \<times> request) list \<Rightarrow> db" where
  "run secret db [] = db"
| "run secret db ((stripe, r) # rs) = run secret (snd (serve stripe secret db r)) rs"

section \<open>A processor double and sample data\<close>

text \<open>
  A processor that knows one checkout session, in the state given: it issues that session,
  returns it for its own id, refunds any charge it is given, and accepts exactly the
  signature \<open>''t=1,v1=good''\<close> under the secret \<open>''whsec_1''\<close>, reading the payload as
  the type of an event about that session.
\<close>

definition processor :: "checkout_session \<Rightarrow> stripe_api" where
  "processor cs =
     \<lparr>Session_create = (\<lambda>params. Inr cs),
      Session_retrieve =
        (\<lambda>ref. if ref = Some (session_id cs) then Inr cs
               else Inl (StripeError ''No such checkout.session'')),
      Refund_create =
        (\<lambda>charge. if charge = None then Inl (StripeError ''Missing required param: payment_intent'')
                  else Inr \<lparr>refund_status = ''succeeded''\<rparr>),
      Webhook_construct_event =
        (\<lambda>payload sig_header secret.
           if sig_header = Some ''t=1,v1=good'' \<and> secret = Some ''whsec_1''
           then Inr \<lparr>event_type = payload, data_object = cs\<rparr>
           else Inl (SignatureVerificationError
                       ''No signatures found matching the expected signature for payload''))\<rparr>"

text \<open>A processor that is unreachable: every call raises.\<close>

definition processor_down :: stripe_api where
  "processor_down =
     \<lparr>Session_create = (\<lambda>params. Inl (StripeError ''Connection error'')),
      Session_retrieve = (\<lambda>ref. Inl (StripeError ''Connection error'')),
      Refund_create = (\<lambda>charge. Inl (StripeError ''Connection error'')),
      Webhook_construct_event =
        (\<lambda>payload sig_header secret. Inl (SignatureVerificationError ''Connection error''))\<rparr>"

definition session_open :: checkout_session where
  "session_open =
     \<lparr>session_id = ''cs_1'',
      url = Some ''https://checkout.example/cs_1'',
      payment_status = ''unpaid'',
      session_status = ''open'',
      payment_intent = None,
      session_metadata = [''payment_id'' \<mapsto> ''p1'', ''order_id'' \<mapsto> ''o1'']\<rparr>"

definition session_paid :: checkout_session where
  "session_paid =
     session_open\<lparr>payment_status := ''paid'', session_status := ''complete'',
                   payment_intent := Some ''pi_1''\<rparr>"

definition session_expired :: checkout_session where
  "session_expired = session_open\<lparr>session_status := ''expired''\<rparr>"

definition session_foreign :: checkout_session where
  "session_foreign = session_paid\<lparr>session_metadata := Map.empty\<rparr>"

definition order_o1 :: PaymentRequest where
  "order_o1 =
     \<lparr>amount_req = Finite 10,
      currency_req = ''usd'',
      order_id_req = ''o1'',
      payment_method_req = ''card'',
      customer_id_req = None,
      metadata_req = None,
      return_url = ''https://shop.example/done'',
      cancel_url = ''https://shop.example/cancel''\<rparr>"

definition payment_p1 :: PaymentModel where
  "payment_p1 = new_payment order_o1 ''p1'' 0 session_open"

definition whsec :: "string option" where
  "whsec = Some ''whsec_1''"

definition completed :: request where
  "completed = WebhookReq ''checkout.session.completed'' (Some ''t=1,v1=good'')"

text \<open>
  One payment's life: it is created, the customer pays and the processor delivers the
  webhook, and the merchant refunds it.
\<close>

definition shop_run :: "(stripe_api \<times> request) list" where
  "shop_run =
     [(processor session_open, CreateReq order_o1 ''p1'' 0),
      (processor session_paid, completed),
      (processor session_paid, RefundReq ''p1'')]"

section \<open>Evaluation lemmas\<close>

lemma outcome_fst: "fst (outcome x) = (case fst x of Inl f \<Rightarrow> Some f | Inr v \<Rightarrow> None)"
  by (cases x rule: outcome.cases) simp_all

lemma outcome_snd: "snd (outcome x) = snd x"
  by (cases x rule: outcome.cases) simp_all

lemmas handler_defs =
  create_payment_def get_payment_def refund_payment_def stripe_webhook_def
  except_StripeError_def float_overflow_def

lemmas sample_defs =
  processor_def processor_down_def session_open_def session_paid_def session_expired_def
  session_foreign_def order_o1_def payment_p1_def whsec_def completed_def new_payment_def
  checkout_params_def

section \<open>The status state machine\<close>

text \<open>
  C1. The status does not only move forward. From an empty store, the payment \<open>p1\<close> is
  created, confirmed by the webhook and refunded: its status is \<open>REFUNDED\<close>. The next
  \<open>get_payment\<close> finds the processor still reporting the session as \<^verbatim>\<open>paid\<close>, and because
  its guard is \<^verbatim>\<open>payment.status != PaymentStatus.CONFIRMED\<close> it writes \<open>CONFIRMED\<close> over
  the terminal status.
\<close>

theorem refunded_record_reverts_to_confirmed:
  "map_option status (run whsec Map.empty shop_run ''p1'') = Some REFUNDED
   \<and> map_option status
        (run whsec Map.empty (shop_run @ [(processor session_paid, GetReq ''p1'')]) ''p1'')
       = Some CONFIRMED"
  by (simp add: shop_run_def handler_defs sample_defs)

text \<open>
  C6. The charge reference is not set on every path to \<open>CONFIRMED\<close>. From an empty store,
  the payment \<open>p1\<close> is created and then read while the processor reports the session as
  \<^verbatim>\<open>paid\<close>: \<open>get_payment\<close> stores the status \<open>CONFIRMED\<close> and leaves
  \<open>stripe_payment_intent_id\<close> unset.
\<close>

theorem poll_confirms_without_charge_ref:
  "run whsec Map.empty
     [(processor session_open, CreateReq order_o1 ''p1'' 0),
      (processor session_paid, GetReq ''p1'')] ''p1''
   = Some (payment_p1\<lparr>status := CONFIRMED\<rparr>)
   \<and> stripe_payment_intent_id (payment_p1\<lparr>status := CONFIRMED\<rparr>) = None"
  by (simp add: handler_defs sample_defs)

text \<open>
  C2. Let a record be stored under \<open>pid\<close> with a non-empty session reference, let the
  processor report that session as \<^verbatim>\<open>paid\<close>, and let a verified
  \<^verbatim>\<open>checkout.session.completed\<close> event carry \<open>pid\<close> in its metadata. Whichever of the two
  (the webhook, the poll of \<open>get_payment\<close>) applies the paid report first and whichever
  second, both requests succeed, the record is \<open>CONFIRMED\<close> after the first and after the
  second, the store has the same keys as at the start, and when the second request is the
  first one repeated it leaves the whole store as the first one left it.
\<close>

theorem paid_event_idempotent:
  assumes rec: "db pid = Some p"
      and ref: "truthy (stripe_session_id p)"
      and poll: "Session_retrieve stripe (stripe_session_id p) = Inr s"
      and paid: "payment_status s = ''paid''"
      and hook: "Webhook_construct_event stripe payload sig_header secret = Inr ev"
      and type: "event_type ev = ''checkout.session.completed''"
      and meta: "session_metadata (data_object ev) ''payment_id'' = Some pid"
      and key: "pid \<noteq> []"
      and r1: "r1 \<in> {WebhookReq payload sig_header, GetReq pid}"
      and r2: "r2 \<in> {WebhookReq payload sig_header, GetReq pid}"
  shows "fst (serve stripe secret db r1) = None
       \<and> map_option status (snd (serve stripe secret db r1) pid) = Some CONFIRMED
       \<and> fst (serve stripe secret (snd (serve stripe secret db r1)) r2) = None
       \<and> map_option status (snd (serve stripe secret (snd (serve stripe secret db r1)) r2) pid)
           = Some CONFIRMED
       \<and> dom (snd (serve stripe secret (snd (serve stripe secret db r1)) r2)) = dom db
       \<and> (r2 = r1 \<longrightarrow>
            snd (serve stripe secret (snd (serve stripe secret db r1)) r2)
              = snd (serve stripe secret db r1))"
  using assms
  by (auto simp add: outcome_fst outcome_snd get_payment_def stripe_webhook_def
           split: option.splits sum.splits if_splits)

theorem paid_event_idempotent_witness:
  "fst (serve (processor session_paid) whsec [''p1'' \<mapsto> payment_p1] completed) = None
   \<and> map_option status
        (snd (serve (processor session_paid) whsec [''p1'' \<mapsto> payment_p1] completed) ''p1'')
       = Some CONFIRMED
   \<and> fst (serve (processor session_paid) whsec
         (snd (serve (processor session_paid) whsec [''p1'' \<mapsto> payment_p1] completed))
         (GetReq ''p1'')) = None
   \<and> map_option status
        (snd (serve (processor session_paid) whsec
           (snd (serve (processor session_paid) whsec [''p1'' \<mapsto> payment_p1] completed))
           (GetReq ''p1'')) ''p1'')
       = Some CONFIRMED
   \<and> snd (serve (processor session_paid) whsec
         (snd (serve (processor session_paid) whsec [''p1'' \<mapsto> payment_p1] completed))
         completed)
       = snd (serve (processor session_paid) whsec [''p1'' \<mapsto> payment_p1] completed)"
  using paid_event_idempotent
          [where db = "[''p1'' \<mapsto> payment_p1]" and pid = "''p1''" and p = payment_p1
             and stripe = "processor session_paid" and s = session_paid
             and payload = "''checkout.session.completed''" and sig_header = "Some ''t=1,v1=good''"
             and secret = whsec
             and ev = "\<lparr>event_type = ''checkout.session.completed'', data_object = session_paid\<rparr>"
             and ?r1.0 = completed and ?r2.0 = "GetReq ''p1''"]
        paid_event_idempotent
          [where db = "[''p1'' \<mapsto> payment_p1]" and pid = "''p1''" and p = payment_p1
             and stripe = "processor session_paid" and s = session_paid
             and payload = "''checkout.session.completed''" and sig_header = "Some ''t=1,v1=good''"
             and secret = whsec
             and ev = "\<lparr>event_type = ''checkout.session.completed'', data_object = session_paid\<rparr>"
             and ?r1.0 = completed and ?r2.0 = completed]
  by (simp add: sample_defs)

section \<open>Query and sync\<close>

text \<open>
  C5, as the claim states it, fails: \<open>get_payment\<close> polls the processor for a record that
  is not Pending. Here the stored record is \<open>CONFIRMED\<close> and the processor is unreachable;
  the exception of the poll ends the request and the record is not returned.
\<close>

theorem get_payment_polls_confirmed_record:
  "status (payment_p1\<lparr>status := CONFIRMED\<rparr>) \<noteq> PENDING
   \<and> get_payment processor_down [''p1'' \<mapsto> payment_p1\<lparr>status := CONFIRMED\<rparr>] ''p1''
     = (Inl (Uncaught (StripeError ''Connection error'')),
        [''p1'' \<mapsto> payment_p1\<lparr>status := CONFIRMED\<rparr>])"
  by (simp add: get_payment_def sample_defs)

text \<open>
  C5, amended. \<open>get_payment\<close> rejects with \<^verbatim>\<open>HTTPException(404, "Payment not found")\<close> when
  no record is stored under the id. It polls the processor exactly when the record has a
  non-empty session reference, whatever its status: without one the record is returned
  as it is, and a poll that raises ends the request with the store unchanged. After a
  poll that returns, a Pending record becomes \<open>CONFIRMED\<close> on a paid report, \<open>FAILED\<close> on an
  expired report that is not paid, and is returned unchanged otherwise; a Confirmed record
  is returned unchanged; a record that is not Pending is returned unchanged when the
  report is not paid.
\<close>

theorem get_payment_sync:
  "(db pid = None \<longrightarrow>
      get_payment stripe db pid = (Inl (HTTPException 404 ''Payment not found''), db))
   \<and> (db pid = Some p \<and> \<not> truthy (stripe_session_id p) \<longrightarrow>
      get_payment stripe db pid = (Inr p, db))
   \<and> (db pid = Some p \<and> truthy (stripe_session_id p) \<and>
      Session_retrieve stripe (stripe_session_id p) = Inl e \<longrightarrow>
      get_payment stripe db pid = (Inl (Uncaught e), db))
   \<and> (db pid = Some p \<and> truthy (stripe_session_id p) \<and>
      Session_retrieve stripe (stripe_session_id p) = Inr s \<longrightarrow>
        (status p = PENDING \<and> payment_status s = ''paid'' \<longrightarrow>
           get_payment stripe db pid
             = (Inr (p\<lparr>status := CONFIRMED\<rparr>), db(pid \<mapsto> p\<lparr>status := CONFIRMED\<rparr>)))
      \<and> (status p = PENDING \<and> payment_status s \<noteq> ''paid'' \<and> session_status s = ''expired'' \<longrightarrow>
           get_payment stripe db pid
             = (Inr (p\<lparr>status := FAILED\<rparr>), db(pid \<mapsto> p\<lparr>status := FAILED\<rparr>)))
      \<and> (status p = PENDING \<and> payment_status s \<noteq> ''paid'' \<and> session_status s \<noteq> ''expired'' \<longrightarrow>
           get_payment stripe db pid = (Inr p, db))
      \<and> (status p = CONFIRMED \<longrightarrow> get_payment stripe db pid = (Inr p, db))
      \<and> (status p \<noteq> PENDING \<and> payment_status s \<noteq> ''paid'' \<longrightarrow>
           get_payment stripe db pid = (Inr p, db)))"
  by (simp add: get_payment_def)

theorem get_payment_sync_witness:
  "get_payment (processor session_paid) Map.empty ''p1''
       = (Inl (HTTPException 404 ''Payment not found''), Map.empty)
   \<and> get_payment (processor session_paid) [''p1'' \<mapsto> payment_p1] ''p1''
       = (Inr (payment_p1\<lparr>status := CONFIRMED\<rparr>), [''p1'' \<mapsto> payment_p1\<lparr>status := CONFIRMED\<rparr>])
   \<and> get_payment (processor session_expired) [''p1'' \<mapsto> payment_p1] ''p1''
       = (Inr (payment_p1\<lparr>status := FAILED\<rparr>), [''p1'' \<mapsto> payment_p1\<lparr>status := FAILED\<rparr>])
   \<and> get_payment (processor session_open) [''p1'' \<mapsto> payment_p1] ''p1''
       = (Inr payment_p1, [''p1'' \<mapsto> payment_p1])
   \<and> get_payment (processor session_paid) [''p1'' \<mapsto> payment_p1\<lparr>status := CONFIRMED\<rparr>] ''p1''
       = (Inr (payment_p1\<lparr>status := CONFIRMED\<rparr>), [''p1'' \<mapsto> payment_p1\<lparr>status := CONFIRMED\<rparr>])
   \<and> get_payment (processor session_expired) [''p1'' \<mapsto> payment_p1\<lparr>status := REFUNDED\<rparr>] ''p1''
       = (Inr (payment_p1\<lparr>status := REFUNDED\<rparr>), [''p1'' \<mapsto> payment_p1\<lparr>status := REFUNDED\<rparr>])
   \<and> get_payment processor_down [''p1'' \<mapsto> payment_p1\<lparr>stripe_session_id := None\<rparr>] ''p1''
       = (Inr (payment_p1\<lparr>stripe_session_id := None\<rparr>),
          [''p1'' \<mapsto> payment_p1\<lparr>stripe_session_id := None\<rparr>])
   \<and> get_payment processor_down [''p1'' \<mapsto> payment_p1] ''p1''
       = (Inl (Uncaught (StripeError ''Connection error'')), [''p1'' \<mapsto> payment_p1])"
  using get_payment_sync
          [where db = Map.empty and pid = "''p1''" and stripe = "processor session_paid"]
        get_payment_sync
          [where db = "[''p1'' \<mapsto> payment_p1]" and pid = "''p1''" and p = payment_p1
             and stripe = "processor session_paid" and s = session_paid]
        get_payment_sync
          [where db = "[''p1'' \<mapsto> payment_p1]" and pid = "''p1''" and p = payment_p1
             and stripe = "processor session_expired" and s = session_expired]
        get_payment_sync
          [where db = "[''p1'' \<mapsto> payment_p1]" and pid = "''p1''" and p = payment_p1
             and stripe = "processor session_open" and s = session_open]
        get_payment_sync
          [where db = "[''p1'' \<mapsto> payment_p1\<lparr>status := CONFIRMED\<rparr>]" and pid = "''p1''"
             and p = "payment_p1\<lparr>status := CONFIRMED\<rparr>"
             and stripe = "processor session_paid" and s = session_paid]
        get_payment_sync
          [where db = "[''p1'' \<mapsto> payment_p1\<lparr>status := REFUNDED\<rparr>]" and pid = "''p1''"
             and p = "payment_p1\<lparr>status := REFUNDED\<rparr>"
             and stripe = "processor session_expired" and s = session_expired]
        get_payment_sync
          [where db = "[''p1'' \<mapsto> payment_p1\<lparr>stripe_session_id := None\<rparr>]" and pid = "''p1''"
             and p = "payment_p1\<lparr>stripe_session_id := None\<rparr>"
             and stripe = processor_down]
        get_payment_sync
          [where db = "[''p1'' \<mapsto> payment_p1]" and pid = "''p1''" and p = payment_p1
             and stripe = processor_down and e = "StripeError ''Connection error''"]
  by (simp add: sample_defs)

section \<open>Initiate payment\<close>

text \<open>
  C3. Let the generated \<^verbatim>\<open>payment_id\<close> be unused in the store. When the handler reaches
  the processor (the amount converts to an integer number of cents) and the processor
  returns a checkout session, \<open>create_payment\<close> answers with the Pending payment and the
  store is the old one plus exactly the new row, whose status is \<open>PENDING\<close> and whose
  session reference is the id of the returned session. When the processor call raises,
  the request is rejected and the store is the old one. Moreover no failing
  \<open>create_payment\<close> changes the store.
\<close>

theorem create_payment_all_or_nothing:
  assumes "db new_id = None"
  shows "(py_int (times100 (amount_req rq)) = Inr n \<and>
          Session_create stripe (checkout_params rq new_id n) = Inr cs \<longrightarrow>
            create_payment stripe new_id now db rq
              = (Inr \<lparr>payment_id_resp = new_id, status_resp = PENDING,
                      amount_resp = amount_req rq, currency_resp = currency_req rq,
                      created_at_resp = now, order_id_resp = order_id_req rq,
                      checkout_url = url cs\<rparr>,
                 db(new_id \<mapsto> new_payment rq new_id now cs))
            \<and> status (new_payment rq new_id now cs) = PENDING
            \<and> stripe_session_id (new_payment rq new_id now cs) = Some (session_id cs))
       \<and> (py_int (times100 (amount_req rq)) = Inr n \<and>
          Session_create stripe (checkout_params rq new_id n) = Inl e \<longrightarrow>
            create_payment stripe new_id now db rq = (Inl (except_StripeError e), db))
       \<and> (\<forall>f db'. create_payment stripe new_id now db rq = (Inl f, db') \<longrightarrow> db' = db)"
  using assms by (auto simp add: create_payment_def new_payment_def split: sum.splits)

theorem create_payment_all_or_nothing_witness:
  "create_payment (processor session_open) ''p1'' 0 Map.empty order_o1
     = (Inr \<lparr>payment_id_resp = ''p1'', status_resp = PENDING, amount_resp = Finite 10,
             currency_resp = ''usd'', created_at_resp = 0, order_id_resp = ''o1'',
             checkout_url = Some ''https://checkout.example/cs_1''\<rparr>,
        [''p1'' \<mapsto> payment_p1])
   \<and> create_payment processor_down ''p1'' 0 Map.empty order_o1
     = (Inl (HTTPException 400 ''Connection error''), Map.empty)"
proof -
  have n: "py_int (times100 (amount_req order_o1)) = Inr 1000"
    by (simp add: order_o1_def float_overflow_def)
  show ?thesis
    using create_payment_all_or_nothing
            [where db = Map.empty and new_id = "''p1''" and rq = order_o1 and n = 1000
               and stripe = "processor session_open" and cs = session_open and now = 0]
          create_payment_all_or_nothing
            [where db = Map.empty and new_id = "''p1''" and rq = order_o1 and n = 1000
               and stripe = processor_down and e = "StripeError ''Connection error''" and now = 0]
          n
    by (simp add: sample_defs except_StripeError_def)
qed

section \<open>Refund\<close>

text \<open>
  C4. For a stored record that is not \<open>CONFIRMED\<close>, \<open>refund_payment\<close> rejects with
  \<^verbatim>\<open>HTTPException(400, "Payment cannot be refunded")\<close> and returns the store it was given.
  For a \<open>CONFIRMED\<close> record whose session the processor returns, a refund call that
  raises, or a refund whose status is not \<^verbatim>\<open>succeeded\<close>, rejects the request and returns
  the store it was given, so the record is still \<open>CONFIRMED\<close>. Moreover no failing
  \<open>refund_payment\<close> changes the store.
\<close>

theorem refund_rejected_leaves_record:
  assumes "db pid = Some p"
  shows "(status p \<noteq> CONFIRMED \<longrightarrow>
            refund_payment stripe db pid = (Inl (HTTPException 400 ''Payment cannot be refunded''), db))
       \<and> (status p = CONFIRMED \<and> Session_retrieve stripe (stripe_session_id p) = Inr s \<longrightarrow>
            (case Refund_create stripe (payment_intent s) of
               Inl e \<Rightarrow> refund_payment stripe db pid = (Inl (except_StripeError e), db)
             | Inr r \<Rightarrow> refund_status r \<noteq> ''succeeded'' \<longrightarrow>
                  refund_payment stripe db pid = (Inl (HTTPException 400 ''Refund failed''), db)))
       \<and> (\<forall>f db'. refund_payment stripe db pid = (Inl f, db') \<longrightarrow> db' = db)"
  using assms by (auto simp add: refund_payment_def split: sum.splits if_splits)

theorem refund_rejected_leaves_record_witness:
  "refund_payment (processor session_open) [''p1'' \<mapsto> payment_p1] ''p1''
     = (Inl (HTTPException 400 ''Payment cannot be refunded''), [''p1'' \<mapsto> payment_p1])
   \<and> refund_payment (processor session_open) [''p1'' \<mapsto> payment_p1\<lparr>status := CONFIRMED\<rparr>] ''p1''
     = (Inl (HTTPException 400 ''Missing required param: payment_intent''),
        [''p1'' \<mapsto> payment_p1\<lparr>status := CONFIRMED\<rparr>])"
  using refund_rejected_leaves_record
          [where db = "[''p1'' \<mapsto> payment_p1]" and pid = "''p1''" and p = payment_p1
             and stripe = "processor session_open" and s = session_open]
        refund_rejected_leaves_record
          [where db = "[''p1'' \<mapsto> payment_p1\<lparr>status := CONFIRMED\<rparr>]" and pid = "''p1''"
             and p = "payment_p1\<lparr>status := CONFIRMED\<rparr>"
             and stripe = "processor session_open" and s = session_open]
  by (simp add: sample_defs except_StripeError_def)

section \<open>Webhook ingestion\<close>

text \<open>
  C7. When \<^verbatim>\<open>stripe.Webhook.construct_event\<close> raises its signature verification error,
  \<open>stripe_webhook\<close> rejects with \<^verbatim>\<open>HTTPException(400, str(e))\<close> and returns the store it was
  given: no record is read or written.
\<close>

theorem webhook_invalid_signature:
  assumes "Webhook_construct_event stripe payload sig_header secret
             = Inl (SignatureVerificationError m)"
  shows "stripe_webhook stripe secret db payload sig_header = (Inl (HTTPException 400 m), db)"
  using assms by (simp add: stripe_webhook_def)

theorem webhook_invalid_signature_witness:
  "Webhook_construct_event (processor session_paid) ''checkout.session.completed''
       (Some ''t=1,v1=forged'') whsec
     = Inl (SignatureVerificationError
              ''No signatures found matching the expected signature for payload'')
   \<and> stripe_webhook (processor session_paid) whsec [''p1'' \<mapsto> payment_p1]
        ''checkout.session.completed'' (Some ''t=1,v1=forged'')
     = (Inl (HTTPException 400 ''No signatures found matching the expected signature for payload''),
        [''p1'' \<mapsto> payment_p1])"
proof -
  have h: "Webhook_construct_event (processor session_paid) ''checkout.session.completed''
               (Some ''t=1,v1=forged'') whsec
             = Inl (SignatureVerificationError
                      ''No signatures found matching the expected signature for payload'')"
    by (simp add: processor_def)
  from webhook_invalid_signature [OF h] h show ?thesis by simp
qed

text \<open>
  C8. A verified \<^verbatim>\<open>checkout.session.completed\<close> event whose metadata has no
  \<^verbatim>\<open>payment_id\<close> (or an empty one), or whose \<^verbatim>\<open>payment_id\<close> is the key of no stored
  record, is answered with \<^verbatim>\<open>{"status": "success"}\<close> and the store is returned as given.
\<close>

theorem webhook_unmatched_event_ignored:
  assumes "Webhook_construct_event stripe payload sig_header secret = Inr ev"
      and "event_type ev = ''checkout.session.completed''"
      and "case session_metadata (data_object ev) ''payment_id'' of
             None \<Rightarrow> True | Some pid \<Rightarrow> pid = [] \<or> db pid = None"
  shows "stripe_webhook stripe secret db payload sig_header = (Inr [(''status'', ''success'')], db)"
  using assms by (auto simp add: stripe_webhook_def split: option.splits)

theorem webhook_unmatched_event_ignored_witness:
  "stripe_webhook (processor session_foreign) whsec [''p1'' \<mapsto> payment_p1]
      ''checkout.session.completed'' (Some ''t=1,v1=good'')
     = (Inr [(''status'', ''success'')], [''p1'' \<mapsto> payment_p1])
   \<and> stripe_webhook (processor session_paid) whsec [''p2'' \<mapsto> payment_p1]
      ''checkout.session.completed'' (Some ''t=1,v1=good'')
     = (Inr [(''status'', ''success'')], [''p2'' \<mapsto> payment_p1])"
proof -
  have a: "Webhook_construct_event (processor session_foreign) ''checkout.session.completed''
             (Some ''t=1,v1=good'') whsec
           = Inr \<lparr>event_type = ''checkout.session.completed'', data_object = session_foreign\<rparr>"
    by (simp add: processor_def whsec_def)
  have b: "Webhook_construct_event (processor session_paid) ''checkout.session.completed''
             (Some ''t=1,v1=good'') whsec
           = Inr \<lparr>event_type = ''checkout.session.completed'', data_object = session_paid\<rparr>"
    by (simp add: processor_def whsec_def)
  show ?thesis
    using webhook_unmatched_event_ignored [OF a, of "[''p1'' \<mapsto> payment_p1]"]
          webhook_unmatched_event_ignored [OF b, of "[''p2'' \<mapsto> payment_p1]"]
    by (simp add: session_foreign_def session_paid_def session_open_def)
qed

text \<open>
  C10. A verified event of any type other than \<^verbatim>\<open>checkout.session.completed\<close> is
  answered with \<^verbatim>\<open>{"status": "success"}\<close> and the store is returned as given: every field
  of every record is what it was.
\<close>

theorem webhook_other_event_ignored:
  assumes "Webhook_construct_event stripe payload sig_header secret = Inr ev"
      and "event_type ev \<noteq> ''checkout.session.completed''"
  shows "stripe_webhook stripe secret db payload sig_header = (Inr [(''status'', ''success'')], db)"
  using assms by (simp add: stripe_webhook_def)

theorem webhook_other_event_ignored_witness:
  "stripe_webhook (processor session_expired) whsec [''p1'' \<mapsto> payment_p1]
      ''checkout.session.expired'' (Some ''t=1,v1=good'')
     = (Inr [(''status'', ''success'')], [''p1'' \<mapsto> payment_p1])"
proof -
  have a: "Webhook_construct_event (processor session_expired) ''checkout.session.expired''
             (Some ''t=1,v1=good'') whsec
           = Inr \<lparr>event_type = ''checkout.session.expired'', data_object = session_expired\<rparr>"
    by (simp add: processor_def whsec_def)
  show ?thesis
    using webhook_other_event_ignored [OF a, of "[''p1'' \<mapsto> payment_p1]"] by simp
qed

end
